theory Spec2Isabelle
  imports Complex_Main
begin

section \<open>Errors and arrays\<close>

text \<open>
  Python exceptions raised on the paths modelled below: the \<open>assert\<close> of
  \<open>Counselor.__init__\<close>, calling the attribute \<open>smoother\<close> while it is still
  \<open>None\<close>, and a shape mismatch (numpy broadcasting, tuple unpacking).
\<close>

datatype error = AssertionError | TypeError | ValueError

text \<open>
  A row of an \<open>(N, 2)\<close> ndarray. Numbers are real: the rounding of floating-point
  arithmetic is not part of this model.
\<close>

type_synonym point = "real \<times> real"

text \<open>\<open>np.radians\<close> and \<open>np.degrees\<close> on a scalar.\<close>

definition radians :: "real \<Rightarrow> real" where
  "radians d = d * (pi / 180)"

definition degrees :: "real \<Rightarrow> real" where
  "degrees r = r * (180 / pi)"

text \<open>
  An elementwise binary operation of numpy on two arrays of rows: equal lengths pair
  up row by row, a single row is broadcast against the other array, anything else
  raises.
\<close>

definition broadcast2 :: "('a \<Rightarrow> 'b \<Rightarrow> 'c) \<Rightarrow> 'a list \<Rightarrow> 'b list \<Rightarrow> error + 'c list" where
  "broadcast2 f xs ys =
     (if length xs = length ys then Inr (map2 f xs ys)
      else if length xs = 1 then Inr (map (f (hd xs)) ys)
      else if length ys = 1 then Inr (map (\<lambda>x. f x (hd ys)) xs)
      else Inl ValueError)"

section \<open>Catalogue and sensor data\<close>

text \<open>
  Modelled from the spec: the classes behind \<open>Catalogue\<close> and the dot collection
  \<open>SensorData.stars\<close> are not among the sources. The spec's data model: an ordered
  collection of entries with a per-entry boolean mask; masking never deletes entries, it
  only flags them, until an explicit cull. A set flag means the entry is masked out
  (\<open>MainWindow.maskSensor\<close> masks the dots whose error is above the limit), so the valid
  entries are those whose flag is clear.
\<close>

record 'a collection =
  entries :: "'a list"
  mask_arr :: "bool list"

definition count :: "'a collection \<Rightarrow> nat" where
  "count c = length (entries c)"

definition valid_rows :: "'a collection \<Rightarrow> 'a list" where
  "valid_rows c = map fst (filter (\<lambda>(e, masked). \<not> masked) (zip (entries c) (mask_arr c)))"

definition count_valid :: "'a collection \<Rightarrow> nat" where
  "count_valid c = length (valid_rows c)"

text \<open>
  Modelled from the spec: \<open>Catalogue.set_mask\<close> and the attribute \<open>mask\<close> of the
  dot collection (both absent) set the validity flags without removing entries. The spec
  calls a mask settable and also combinable (a later mask call reduces validity further),
  so what a collection stores when it is handed a mask is the parameter \<open>upd\<close>, a
  function of the stored mask and the new one; \<open>replace\<close> stores the new mask as it
  is, \<open>accumulate\<close> keeps masked what was masked before.
\<close>

definition replace :: "bool list \<Rightarrow> bool list \<Rightarrow> bool list" where
  "replace old new = new"

definition accumulate :: "bool list \<Rightarrow> bool list \<Rightarrow> bool list" where
  "accumulate old new = map2 (\<or>) old new"

definition set_mask ::
  "(bool list \<Rightarrow> bool list \<Rightarrow> bool list) \<Rightarrow> 'a collection \<Rightarrow> bool list \<Rightarrow> 'a collection" where
  "set_mask upd c m = c\<lparr>mask_arr := upd (mask_arr c) m\<rparr>"

text \<open>
  Modelled from the spec: \<open>cull()\<close> (absent) permanently discards the invalid
  entries, shrinking the working set and renumbering indices; what stays is valid.
\<close>

definition cull :: "'a collection \<Rightarrow> 'a collection" where
  "cull c = c\<lparr>entries := valid_rows c, mask_arr := replicate (length (valid_rows c)) False\<rparr>"

text \<open>
  Modelled from the spec: \<open>reset_mask()\<close> (absent) restores all entries to valid.
\<close>

definition reset_mask :: "'a collection \<Rightarrow> 'a collection" where
  "reset_mask c = c\<lparr>mask_arr := replicate (count c) False\<rparr>"

text \<open>The rows a method called with the flag \<open>masked\<close> works on.\<close>

definition rows :: "bool \<Rightarrow> 'a collection \<Rightarrow> 'a list" where
  "rows masked c = (if masked then valid_rows c else entries c)"

text \<open>A detected dot and a meteor track sample: pixel position and magnitude.\<close>

record dot =
  dot_x :: real
  dot_y :: real
  dot_m :: real

record sample = dot +
  fno :: nat

record sensor_data =
  stars :: "dot collection"
  meteor :: "sample list"

text \<open>
  A projection object is called on pixel coordinates and gives a pair of sky angles.
  The projection classes are not among the sources: a projection is a parameter.
\<close>

type_synonym projection = "real \<Rightarrow> real \<Rightarrow> point"

text \<open>
  Modelled from the callers: \<open>stars.project(projection, masked)\<close> and
  \<open>meteor.project(projection)\<close> (absent) apply the projection to every row;
  \<open>MainWindow.maskSensor\<close> uses the result for \<open>masked=False\<close> as a mask over all
  entries, so that call covers every entry and \<open>masked=True\<close> the valid ones.
\<close>

definition project :: "projection \<Rightarrow> bool \<Rightarrow> dot collection \<Rightarrow> point list" where
  "project projection masked c = map (\<lambda>d. projection (dot_x d) (dot_y d)) (rows masked c)"

definition project_track :: "projection \<Rightarrow> sample list \<Rightarrow> point list" where
  "project_track projection tr = map (\<lambda>d. projection (dot_x d) (dot_y d)) tr"

text \<open>
  Modelled from the callers: \<open>catalogue.to_altaz_deg(location, time, masked)\<close>
  (absent) gives altitude and azimuth in degrees for every row; the conversion of one
  star at a place and time is the parameter \<open>altaz\<close>.
\<close>

definition to_altaz_deg ::
  "('loc \<Rightarrow> 'tm \<Rightarrow> 'star \<Rightarrow> point) \<Rightarrow> 'star collection \<Rightarrow> 'loc \<Rightarrow> 'tm \<Rightarrow> bool \<Rightarrow> point list" where
  "to_altaz_deg altaz c loc tm masked = map (altaz loc tm) (rows masked c)"

section \<open>The Counselor\<close>

record ('loc, 'tm, 'pc, 'star) counselor =
  location :: 'loc
  time :: 'tm
  projection_cls :: 'pc
  catalogue :: "'star collection"
  sensor_data :: sensor_data
  smoother :: "(point list \<Rightarrow> point list) option"

text \<open>
  \<open>Counselor.__init__\<close>. The object under construction is \<open>self\<close>; an attribute
  that has not been assigned yet keeps the value it has in \<open>self\<close>, so "never
  assigned" reads "unchanged". \<open>Matcher.__init__\<close> is not among the sources: it is the
  parameter \<open>Matcher_init\<close>. The result is the exception raised, if any, and the
  object as the constructor leaves it. (The trailing \<open>print\<close> calls change nothing.)
\<close>

definition Counselor_init ::
  "(('loc, 'tm, 'pc, 'star) counselor \<Rightarrow> 'loc \<Rightarrow> 'tm \<Rightarrow> 'pc \<Rightarrow> ('loc, 'tm, 'pc, 'star) counselor) \<Rightarrow>
   ('loc, 'tm, 'pc, 'star) counselor \<Rightarrow> 'loc \<Rightarrow> 'tm \<Rightarrow> 'pc \<Rightarrow> 'star collection \<Rightarrow> sensor_data \<Rightarrow>
   error option \<times> ('loc, 'tm, 'pc, 'star) counselor" where
  "Counselor_init Matcher_init self loc tm pcls cat sd =
     (let self = Matcher_init self loc tm pcls in
      if count (stars sd) \<noteq> count cat then (Some AssertionError, self)
      else (None, self\<lparr>catalogue := cat, sensor_data := sd, smoother := None\<rparr>))"

text \<open>
  \<open>Counselor.mask_catalogue\<close> and \<open>Counselor.mask_sensor_data\<close>: the mask goes to
  the catalogue through \<open>set_mask\<close> and to the dots through the assignment
  \<open>self.sensor_data.stars.mask = mask\<close>. The class of the dots is absent, so the
  assignment is read as that collection taking the mask by the same rule \<open>upd\<close>; with
  \<open>replace\<close> it is the plain store of the attribute.
\<close>

definition mask_catalogue ::
  "(bool list \<Rightarrow> bool list \<Rightarrow> bool list) \<Rightarrow>
   ('loc, 'tm, 'pc, 'star) counselor \<Rightarrow> bool list \<Rightarrow> ('loc, 'tm, 'pc, 'star) counselor" where
  "mask_catalogue upd self m =
     (let self = self\<lparr>catalogue := set_mask upd (catalogue self) m\<rparr> in
      self\<lparr>sensor_data :=
             (sensor_data self)\<lparr>stars := set_mask upd (stars (sensor_data self)) m\<rparr>\<rparr>)"

definition mask_sensor_data ::
  "(bool list \<Rightarrow> bool list \<Rightarrow> bool list) \<Rightarrow>
   ('loc, 'tm, 'pc, 'star) counselor \<Rightarrow> bool list \<Rightarrow> ('loc, 'tm, 'pc, 'star) counselor" where
  "mask_sensor_data upd self m = mask_catalogue upd self m"

text \<open>\<open>Counselor.pair\<close>: culls both sides and returns \<open>self\<close>.\<close>

definition pair ::
  "('loc, 'tm, 'pc, 'star) counselor \<Rightarrow> projection \<Rightarrow> ('loc, 'tm, 'pc, 'star) counselor" where
  "pair self projection =
     (let self = self\<lparr>catalogue := cull (catalogue self)\<rparr> in
      self\<lparr>sensor_data := (sensor_data self)\<lparr>stars := cull (stars (sensor_data self))\<rparr>\<rparr>)"

text \<open>
  \<open>MainWindowBase.paired\<close> tells the two matcher classes apart by
  \<open>isinstance(self.matcher, Counselor)\<close>, and \<open>MainWindow.pair\<close> stores what
  \<open>self.matcher.pair(self.projection)\<close> returns. The Matchmaker class is not among the
  sources: its state is a type parameter and its \<open>pair\<close> method a parameter.
\<close>

datatype ('mm, 'c) matcher = Matchmaker 'mm | Counselor 'c

definition paired :: "('mm, 'c) matcher \<Rightarrow> bool" where
  "paired m = (case m of Counselor c \<Rightarrow> True | Matchmaker mm \<Rightarrow> False)"

definition matcher_pair ::
  "('mm \<Rightarrow> projection \<Rightarrow> ('mm, ('loc, 'tm, 'pc, 'star) counselor) matcher) \<Rightarrow>
   ('mm, ('loc, 'tm, 'pc, 'star) counselor) matcher \<Rightarrow> projection \<Rightarrow>
   ('mm, ('loc, 'tm, 'pc, 'star) counselor) matcher" where
  "matcher_pair Matchmaker_pair m projection =
     (case m of
        Matchmaker mm \<Rightarrow> Matchmaker_pair mm projection
      | Counselor c \<Rightarrow> Counselor (pair c projection))"

subsection \<open>Distances and vector errors\<close>

text \<open>
  Modelled from the spec: \<open>spherical_distance\<close> (module \<open>utilities\<close>, absent) is the
  great-circle distance between two sets of coordinate pairs, computed by numpy
  row against row. The distance between two points is the parameter \<open>gc\<close>.
\<close>

definition spherical_distance ::
  "(point \<Rightarrow> point \<Rightarrow> real) \<Rightarrow> point list \<Rightarrow> point list \<Rightarrow> error + real list" where
  "spherical_distance gc xs ys = broadcast2 gc xs ys"

text \<open>
  Modelled from the spec: \<open>spherical_difference\<close> (module \<open>utilities\<close>, absent) gives a
  2-component vector, the difference of the first coordinates and the difference of the
  azimuths; the spec records that the utility has no azimuth wrap-around.
\<close>

definition point_difference :: "point \<Rightarrow> point \<Rightarrow> point" where
  "point_difference p q = (fst p - fst q, snd p - snd q)"

definition spherical_difference :: "point list \<Rightarrow> point list \<Rightarrow> error + point list" where
  "spherical_difference xs ys = broadcast2 point_difference xs ys"

text \<open>
  \<open>Counselor.compute_distances\<close> and \<open>Counselor.compute_vector_errors\<close>. The
  assignment \<open>catalogue = np.radians(catalogue)\<close> binds the local name to a new array;
  the assignment \<open>observed[..., 0] = np.pi / 2 - observed[..., 0]\<close> writes into the
  array the caller passed. The result is the value returned, then the contents of the
  caller's \<open>observed\<close> array and of the caller's \<open>catalogue\<close> array after the call.
\<close>

definition compute_distances ::
  "(point \<Rightarrow> point \<Rightarrow> real) \<Rightarrow> point list \<Rightarrow> point list \<Rightarrow>
   (error + real list) \<times> point list \<times> point list" where
  "compute_distances gc observed catalogue_arg =
     (let catalogue_loc = map (\<lambda>(alt, az). (radians alt, radians az)) catalogue_arg;
          observed = map (\<lambda>(alt, az). (pi / 2 - alt, az)) observed
      in (spherical_distance gc observed catalogue_loc, observed, catalogue_arg))"

definition compute_vector_errors ::
  "point list \<Rightarrow> point list \<Rightarrow> (error + point list) \<times> point list \<times> point list" where
  "compute_vector_errors observed catalogue_arg =
     (let catalogue_loc = map (\<lambda>(alt, az). (radians alt, radians az)) catalogue_arg;
          observed = map (\<lambda>(alt, az). (pi / 2 - alt, az)) observed
      in (spherical_difference observed catalogue_loc, observed, catalogue_arg))"

text \<open>
  \<open>Counselor.errors\<close> and \<open>Counselor.errors_inverse\<close>: both arrays handed to
  \<open>compute_distances\<close> are results of calls that nothing else holds, so only the
  returned value is left.
\<close>

definition errors ::
  "(point \<Rightarrow> point \<Rightarrow> real) \<Rightarrow> ('loc \<Rightarrow> 'tm \<Rightarrow> 'star \<Rightarrow> point) \<Rightarrow>
   ('loc, 'tm, 'pc, 'star) counselor \<Rightarrow> projection \<Rightarrow> bool \<Rightarrow> error + real list" where
  "errors gc altaz self projection masked =
     fst (compute_distances gc
            (project projection masked (stars (sensor_data self)))
            (to_altaz_deg altaz (catalogue self) (location self) (time self) masked))"

definition errors_inverse ::
  "(point \<Rightarrow> point \<Rightarrow> real) \<Rightarrow> ('loc \<Rightarrow> 'tm \<Rightarrow> 'star \<Rightarrow> point) \<Rightarrow>
   ('loc, 'tm, 'pc, 'star) counselor \<Rightarrow> projection \<Rightarrow> bool \<Rightarrow> error + real list" where
  "errors_inverse gc altaz self projection masked = errors gc altaz self projection masked"

subsection \<open>Meteor correction\<close>

text \<open>
  \<open>proj_to_disk\<close> and \<open>disk_to_altaz\<close> (module \<open>utilities\<close>, absent) are parameters:
  the first maps projected rows to rows of disk coordinates, the second maps disk rows
  to sky coordinates. \<open>xy + dxdy\<close> is numpy's addition of two arrays of rows. Calling
  \<open>self.smoother\<close> while it is \<open>None\<close> raises \<open>TypeError\<close>.
\<close>

definition add_rows :: "point \<Rightarrow> point \<Rightarrow> point" where
  "add_rows p q = (fst p + fst q, snd p + snd q)"

definition project_meteor ::
  "(point list \<Rightarrow> point list) \<Rightarrow> (point list \<Rightarrow> 'sky) \<Rightarrow>
   ('loc, 'tm, 'pc, 'star) counselor \<Rightarrow> projection \<Rightarrow> 'sky" where
  "project_meteor proj_to_disk disk_to_altaz self projection =
     (let xy = proj_to_disk (project_track projection (meteor (sensor_data self)))
      in disk_to_altaz xy)"

definition correction_meteor_xy ::
  "(point list \<Rightarrow> point list) \<Rightarrow> ('loc, 'tm, 'pc, 'star) counselor \<Rightarrow> projection \<Rightarrow>
   error + point list" where
  "correction_meteor_xy proj_to_disk self projection =
     (case smoother self of
        None \<Rightarrow> Inl TypeError
      | Some sm \<Rightarrow> Inr (sm (proj_to_disk (project_track projection (meteor (sensor_data self))))))"

definition correct_meteor ::
  "(point list \<Rightarrow> point list) \<Rightarrow> (point list \<Rightarrow> 'sky) \<Rightarrow>
   ('loc, 'tm, 'pc, 'star) counselor \<Rightarrow> projection \<Rightarrow> error + 'sky" where
  "correct_meteor proj_to_disk disk_to_altaz self projection =
     (let xy = proj_to_disk (project_track projection (meteor (sensor_data self))) in
      case smoother self of
        None \<Rightarrow> Inl TypeError
      | Some sm \<Rightarrow>
          (let dxdy = sm xy in
           case broadcast2 add_rows xy dxdy of
             Inl e \<Rightarrow> Inl e
           | Inr s \<Rightarrow> Inr (disk_to_altaz s)))"

section \<open>The main window: parameters at the boundary\<close>

text \<open>
  The twelve parameter spin boxes and the iteration spin box of the main window; a spin
  box is a cell read by \<open>value()\<close> and written by \<open>setValue\<close>.
\<close>

record widgets =
  dsb_x0 :: real
  dsb_y0 :: real
  dsb_a0 :: real
  dsb_A :: real
  dsb_F :: real
  dsb_V :: real
  dsb_S :: real
  dsb_D :: real
  dsb_P :: real
  dsb_Q :: real
  dsb_eps :: real
  dsb_E :: real
  sb_maxiter :: int

definition getConstantsTuple :: "widgets \<Rightarrow> real list" where
  "getConstantsTuple w =
     [dsb_x0 w, dsb_y0 w, radians (dsb_a0 w), dsb_A w, radians (dsb_F w), dsb_V w,
      dsb_S w, dsb_D w, dsb_P w, dsb_Q w, radians (dsb_eps w), radians (dsb_E w)]"

text \<open>
  What \<open>matcher.minimize\<close> returns: the parameter vector \<open>result.x\<close>, the number of
  iterations used and the convergence flag.
\<close>

record opt_result =
  res_x :: "real list"
  res_nit :: nat
  res_success :: bool

text \<open>
  \<open>MainWindow.minimize\<close>, with \<open>self.matcher.minimize\<close> as the parameter
  \<open>matcher_minimize\<close>. Unpacking \<open>tuple(result.x)\<close> into twelve names raises
  \<open>ValueError\<close> unless it has twelve components.
\<close>

definition MainWindow_minimize ::
  "(real list \<Rightarrow> int \<Rightarrow> opt_result) \<Rightarrow> widgets \<Rightarrow> error + widgets" where
  "MainWindow_minimize matcher_minimize w =
     (let result = matcher_minimize (getConstantsTuple w) (sb_maxiter w);
          t = res_x result
      in if length t \<noteq> 12 then Inl ValueError
         else Inr (w\<lparr>dsb_x0 := t ! 0, dsb_y0 := t ! 1, dsb_a0 := degrees (t ! 2),
                     dsb_A := t ! 3, dsb_F := degrees (t ! 4), dsb_V := t ! 5,
                     dsb_S := t ! 6, dsb_D := t ! 7, dsb_P := t ! 8, dsb_Q := t ! 9,
                     dsb_eps := degrees (t ! 10), dsb_E := degrees (t ! 11)\<rparr>))"

section \<open>The calibration optimizer\<close>

text \<open>
  Modelled from the spec: \<open>Matcher.minimize\<close> and the optimizer it drives are not among
  the sources. The spec: it takes an initial parameter vector, a maximum iteration count
  and the matcher's error function; it minimises iteratively within the bounded
  iteration count; it returns the best parameter vector found together with a
  convergence and iteration-count indicator, also when the budget is exhausted. The
  search algorithm is left free by the spec, so the step that proposes the next
  candidate and the convergence test are the parameters \<open>propose\<close> and \<open>converged\<close>.
\<close>

fun optimize_loop ::
  "(real list \<Rightarrow> real) \<Rightarrow> (real list \<Rightarrow> real list) \<Rightarrow> (real list \<Rightarrow> bool) \<Rightarrow>
   nat \<Rightarrow> nat \<Rightarrow> real list \<Rightarrow> opt_result" where
  "optimize_loop err propose converged 0 it best =
     \<lparr>res_x = best, res_nit = it, res_success = converged best\<rparr>"
| "optimize_loop err propose converged (Suc budget) it best =
     (if converged best then \<lparr>res_x = best, res_nit = it, res_success = True\<rparr>
      else (let cand = propose best;
                best = (if err cand < err best then cand else best)
            in optimize_loop err propose converged budget (Suc it) best))"

definition matcher_minimize ::
  "(real list \<Rightarrow> real) \<Rightarrow> (real list \<Rightarrow> real list) \<Rightarrow> (real list \<Rightarrow> bool) \<Rightarrow>
   real list \<Rightarrow> int \<Rightarrow> opt_result" where
  "matcher_minimize err propose converged x0 maxiter =
     optimize_loop err propose converged (nat maxiter) 0 x0"

section \<open>Concrete inputs\<close>

text \<open>
  Three catalogue stars (named by a number) paired with three dots, the middle pair
  masked out, one meteor sample, and a smoother that halves its argument.
\<close>

definition star_cat :: "nat collection" where
  "star_cat = \<lparr>entries = [10, 20, 30], mask_arr = [False, True, False]\<rparr>"

definition star_cat2 :: "nat collection" where
  "star_cat2 = \<lparr>entries = [10, 20], mask_arr = [False, False]\<rparr>"

definition dots3 :: "dot collection" where
  "dots3 = \<lparr>entries = [\<lparr>dot_x = 1, dot_y = 2, dot_m = 3\<rparr>, \<lparr>dot_x = 4, dot_y = 5, dot_m = 6\<rparr>,
       \<lparr>dot_x = 7, dot_y = 8, dot_m = 9\<rparr>], mask_arr = [False, True, False]\<rparr>"

definition sd3 :: sensor_data where
  "sd3 = \<lparr>stars = dots3, meteor = [\<lparr>dot_x = 1, dot_y = 2, dot_m = 3, fno = 0\<rparr>]\<rparr>"

definition halve :: "point list \<Rightarrow> point list" where
  "halve = map (\<lambda>(u, v). (u / 2, v / 2))"

definition c3 :: "(unit, unit, unit, nat) counselor" where
  "c3 = \<lparr>location = (), time = (), projection_cls = (), catalogue = star_cat,
     sensor_data = sd3, smoother = Some halve\<rparr>"

text \<open>A base-class initialiser that stores its three arguments.\<close>

definition store_args ::
  "(unit, unit, unit, nat) counselor \<Rightarrow> unit \<Rightarrow> unit \<Rightarrow> unit \<Rightarrow> (unit, unit, unit, nat) counselor" where
  "store_args self loc tm pcls = self\<lparr>location := loc, time := tm, projection_cls := pcls\<rparr>"

text \<open>
  A projection that scales the pixel plane, a distance that only looks at the second
  coordinate, a sky conversion that puts star \<open>n\<close> at \<open>(n, 0)\<close>, and disk maps.
\<close>

definition flat :: projection where
  "flat u v = (u / 10, v / 10)"

definition az_gap :: "point \<Rightarrow> point \<Rightarrow> real" where
  "az_gap p q = \<bar>snd p - snd q\<bar>"

definition on_grid :: "unit \<Rightarrow> unit \<Rightarrow> nat \<Rightarrow> point" where
  "on_grid loc tm s = (real s, 0)"

definition twice :: "point list \<Rightarrow> point list" where
  "twice = map (\<lambda>(u, v). (2 * u, 2 * v))"

definition swap_rows :: "point list \<Rightarrow> point list" where
  "swap_rows = map (\<lambda>(u, v). (v, u))"

text \<open>Widget values.\<close>

definition w0 :: widgets where
  "w0 = \<lparr>dsb_x0 = 1, dsb_y0 = 2, dsb_a0 = 30, dsb_A = 4, dsb_F = 45, dsb_V = 6, dsb_S = 7,
     dsb_D = 8, dsb_P = 9, dsb_Q = 10, dsb_eps = 60, dsb_E = 90, sb_maxiter = 2\<rparr>"

text \<open>
  An error function (the sum of the absolute values), a search step that halves every
  component, and a convergence test that never holds.
\<close>

definition abs_sum :: "real list \<Rightarrow> real" where
  "abs_sum v = sum_list (map abs v)"

definition shrink :: "real list \<Rightarrow> real list" where
  "shrink v = map (\<lambda>x. x / 2) v"

definition never :: "real list \<Rightarrow> bool" where
  "never v = False"

definition ones :: "real list" where
  "ones = [4, 4, 4, 4, 4, 4, 4, 4, 4, 4, 4, 4]"

section \<open>Facts about the collections\<close>

lemma count_valid_mask:
  "count_valid c = length (filter Not (take (count c) (mask_arr c)))"
proof -
  have "length (filter (\<lambda>(e, masked). \<not> masked) (zip es ms))
          = length (filter Not (take (length es) ms))"
    for es :: "'a list" and ms
    by (induction es ms rule: list_induct2') auto
  then show ?thesis
    by (simp add: count_valid_def valid_rows_def count_def)
qed

lemma count_valid_le_count: "count_valid c \<le> count c"
proof -
  have "length (filter Not (take (count c) (mask_arr c))) \<le> length (take (count c) (mask_arr c))"
    by (rule length_filter_le)
  then show ?thesis by (simp add: count_valid_mask)
qed

lemma count_valid_cull: "count_valid (cull c) = count (cull c)"
  by (simp add: count_valid_mask) (simp add: cull_def count_def)

lemma count_cull: "count (cull c) = count_valid c"
  by (simp add: count_def count_valid_def cull_def)

lemma count_reset_mask: "count (reset_mask c) = count c"
  by (simp add: count_def reset_mask_def)

lemma count_mask_catalogue:
  "count (catalogue (mask_catalogue upd self m)) = count (catalogue self)"
  "count (stars (sensor_data (mask_catalogue upd self m))) = count (stars (sensor_data self))"
  by (simp_all add: mask_catalogue_def set_mask_def count_def Let_def)

lemma mask_arr_mask_catalogue:
  "mask_arr (catalogue (mask_catalogue upd self m)) = upd (mask_arr (catalogue self)) m"
  "mask_arr (stars (sensor_data (mask_catalogue upd self m)))
     = upd (mask_arr (stars (sensor_data self))) m"
  by (simp_all add: mask_catalogue_def set_mask_def Let_def)

lemma pair_aligns_masks:
  assumes "count_valid (stars (sensor_data self)) = count_valid (catalogue self)"
  shows "mask_arr (stars (sensor_data (pair self projection)))
           = mask_arr (catalogue (pair self projection))"
    and "count (stars (sensor_data (pair self projection)))
           = count (catalogue (pair self projection))"
  using assms by (simp_all add: pair_def Let_def cull_def count_def count_valid_def)

lemma init_establishes_counts:
  assumes "Counselor_init Matcher_init self loc tm pcls cat sd = (None, self')"
  shows "count (stars (sensor_data self')) = count (catalogue self')"
  using assms by (auto simp add: Counselor_init_def Let_def split: if_splits)

lemma broadcast2_same_length:
  "length xs = length ys \<Longrightarrow> broadcast2 f xs ys = Inr (map2 f xs ys)"
  by (simp add: broadcast2_def)

section \<open>Masking, construction and pairing\<close>

text \<open>
  C1: for a Counselor, whose constructor has asserted that both sides hold the same
  number of entries, every call of \<open>mask_catalogue\<close> or \<open>mask_sensor_data\<close> leaves
  as many valid catalogue entries as valid sensor dots. When a collection stores the
  mask it is handed, this holds after every call. When a collection combines the mask
  with the stored one by some rule \<open>upd\<close>, it holds for a Counselor whose two sides
  carry the same mask, and the two sides carry the same mask again afterwards. The
  number of entries on either side is what it was, so the next masking call starts from
  the same invariant.
\<close>

theorem masking_keeps_valid_counts_equal:
  assumes "count (stars (sensor_data self)) = count (catalogue self)"
  shows "count_valid (catalogue (mask_catalogue replace self m))
           = count_valid (stars (sensor_data (mask_catalogue replace self m)))
       \<and> count_valid (catalogue (mask_sensor_data replace self m))
           = count_valid (stars (sensor_data (mask_sensor_data replace self m)))
       \<and> (mask_arr (stars (sensor_data self)) = mask_arr (catalogue self) \<longrightarrow>
            count_valid (catalogue (mask_catalogue upd self m))
              = count_valid (stars (sensor_data (mask_catalogue upd self m)))
          \<and> count_valid (catalogue (mask_sensor_data upd self m))
              = count_valid (stars (sensor_data (mask_sensor_data upd self m)))
          \<and> mask_arr (stars (sensor_data (mask_catalogue upd self m)))
              = mask_arr (catalogue (mask_catalogue upd self m)))
       \<and> count (stars (sensor_data (mask_catalogue upd self m)))
           = count (catalogue (mask_catalogue upd self m))
       \<and> count (stars (sensor_data (mask_sensor_data upd self m)))
           = count (catalogue (mask_sensor_data upd self m))"
  using assms
  by (simp add: mask_sensor_data_def count_valid_mask count_mask_catalogue
      mask_arr_mask_catalogue replace_def)

theorem masking_keeps_valid_counts_equal_witness:
  "count (stars (sensor_data c3)) = count (catalogue c3)
   \<and> mask_arr (stars (sensor_data c3)) = mask_arr (catalogue c3)
   \<and> count_valid (catalogue (mask_catalogue replace c3 [True, False, True])) = 1
   \<and> count_valid (stars (sensor_data (mask_catalogue replace c3 [True, False, True]))) = 1
   \<and> count_valid (catalogue (mask_sensor_data accumulate c3 [True, False, False])) = 1
   \<and> count_valid (stars (sensor_data (mask_sensor_data accumulate c3 [True, False, False]))) = 1"
proof -
  have h: "count (stars (sensor_data c3)) = count (catalogue c3)"
    by (simp add: c3_def sd3_def star_cat_def dots3_def count_def)
  have e: "mask_arr (stars (sensor_data c3)) = mask_arr (catalogue c3)"
    by (simp add: c3_def sd3_def star_cat_def dots3_def)
  have a: "count_valid (catalogue (mask_catalogue replace c3 [True, False, True])) = 1"
    by (simp add: c3_def star_cat_def count_valid_def valid_rows_def mask_catalogue_def
        set_mask_def replace_def)
  have b: "count_valid (catalogue (mask_sensor_data accumulate c3 [True, False, False])) = 1"
    by (simp add: c3_def star_cat_def count_valid_def valid_rows_def mask_catalogue_def
        mask_sensor_data_def set_mask_def accumulate_def)
  show ?thesis
    using h e a b
      masking_keeps_valid_counts_equal [OF h, of "[True, False, True]" replace]
      masking_keeps_valid_counts_equal [OF h, of "[True, False, False]" accumulate]
    by simp
qed

text \<open>
  C2: constructing a Counselor from a catalogue and sensor data with unequal numbers
  of entries fails with the assertion error, and at that point the object is exactly as
  the base-class initialiser left it: none of the assignments to \<open>catalogue\<close>,
  \<open>sensor_data\<close> and \<open>smoother\<close> has run.
\<close>

theorem init_rejects_unequal_counts:
  assumes "count (stars sd) \<noteq> count cat"
  shows "Counselor_init Matcher_init self loc tm pcls cat sd
           = (Some AssertionError, Matcher_init self loc tm pcls)"
  using assms by (simp add: Counselor_init_def)

theorem init_rejects_unequal_counts_witness:
  "count (stars sd3) \<noteq> count star_cat2
   \<and> Counselor_init store_args c3 () () () star_cat2 sd3 = (Some AssertionError, c3)
   \<and> catalogue (snd (Counselor_init store_args c3 () () () star_cat2 sd3)) = star_cat"
proof -
  have h: "count (stars sd3) \<noteq> count star_cat2"
    by (simp add: count_def sd3_def dots3_def star_cat2_def)
  have s: "store_args c3 () () () = c3"
    by (simp add: store_args_def)
  show ?thesis
    using h s init_rejects_unequal_counts [OF h, of store_args c3 "()" "()" "()"]
    by (simp add: c3_def)
qed

text \<open>
  C9: \<open>pair\<close> called on a Counselor gives the Counselor back, so a paired matcher
  stays paired; it has culled both sides, which afterwards hold valid entries only
  (\<open>count_valid\<close> equals \<open>count\<close>), and resetting the mask afterwards does not bring
  the discarded entries back. The other attributes are as they were.
\<close>

theorem pair_keeps_paired_and_culls:
  "matcher_pair Matchmaker_pair (Counselor self) projection = Counselor (pair self projection)
   \<and> paired (matcher_pair Matchmaker_pair (Counselor self) projection)
   \<and> catalogue (pair self projection) = cull (catalogue self)
   \<and> stars (sensor_data (pair self projection)) = cull (stars (sensor_data self))
   \<and> count_valid (catalogue (pair self projection)) = count (catalogue (pair self projection))
   \<and> count_valid (stars (sensor_data (pair self projection)))
        = count (stars (sensor_data (pair self projection)))
   \<and> count (reset_mask (catalogue (pair self projection))) = count_valid (catalogue self)
   \<and> count (reset_mask (stars (sensor_data (pair self projection))))
        = count_valid (stars (sensor_data self))
   \<and> location (pair self projection) = location self
   \<and> time (pair self projection) = time self
   \<and> projection_cls (pair self projection) = projection_cls self
   \<and> smoother (pair self projection) = smoother self
   \<and> meteor (sensor_data (pair self projection)) = meteor (sensor_data self)"
  by (simp add: matcher_pair_def paired_def pair_def Let_def count_valid_cull count_cull
      count_reset_mask)

text \<open>
  C10: for every projection and masking flag, \<open>errors_inverse\<close> returns what
  \<open>errors\<close> returns.
\<close>

theorem errors_inverse_is_errors:
  "errors_inverse gc altaz self projection masked = errors gc altaz self projection masked"
  by (simp add: errors_inverse_def)

section \<open>Errors and the meteor correction\<close>

text \<open>
  C3: for a Counselor whose smoother has been built, \<open>correct_meteor\<close> is the
  composition the spec describes: with \<open>xy\<close> the meteor track projected and mapped to
  the disk, the result is \<open>disk_to_altaz\<close> of the array sum of \<open>xy\<close> and the
  smoother's value at \<open>xy\<close> (an exception of that sum is passed on); when the smoother
  returns one correction per track point, the sum is taken row by row.
\<close>

theorem correct_meteor_composition:
  assumes "smoother self = Some sm"
  shows "correct_meteor proj_to_disk disk_to_altaz self projection =
           (let xy = proj_to_disk (project_track projection (meteor (sensor_data self)))
            in map_sum id disk_to_altaz (broadcast2 add_rows xy (sm xy)))
       \<and> (let xy = proj_to_disk (project_track projection (meteor (sensor_data self)))
          in length (sm xy) = length xy \<longrightarrow>
             correct_meteor proj_to_disk disk_to_altaz self projection =
               Inr (disk_to_altaz (map2 add_rows xy (sm xy))))"
  using assms
  by (auto simp add: correct_meteor_def Let_def broadcast2_same_length split: sum.splits)

theorem correct_meteor_composition_witness:
  "smoother c3 = Some halve
   \<and> correct_meteor twice swap_rows c3 flat = Inr [(3 / 5, 3 / 10)]"
proof -
  have h: "smoother c3 = Some halve"
    by (simp add: c3_def)
  show ?thesis
    using h correct_meteor_composition [OF h, of twice swap_rows flat]
    by (simp add: c3_def sd3_def project_track_def flat_def add_rows_def broadcast2_def
        twice_def swap_rows_def halve_def)
qed

text \<open>
  C4: for a Counselor whose two sides give the same number of rows under the masking
  flag, \<open>errors\<close> returns one distance per index: entry \<open>i\<close> is the distance between
  the projection of dot \<open>i\<close> (its first coordinate replaced by \<open>pi / 2\<close> minus itself)
  and catalogue star \<open>i\<close> (its altitude and azimuth converted from degrees to radians).
  No other dot or star enters entry \<open>i\<close>.
\<close>

theorem errors_index_wise:
  assumes "length (rows masked (stars (sensor_data self))) = length (rows masked (catalogue self))"
  shows "errors gc altaz self projection masked =
           Inr (map2 (\<lambda>d s. gc (pi / 2 - fst (projection (dot_x d) (dot_y d)),
                                 snd (projection (dot_x d) (dot_y d)))
                               (radians (fst (altaz (location self) (time self) s)),
                                radians (snd (altaz (location self) (time self) s))))
                  (rows masked (stars (sensor_data self))) (rows masked (catalogue self)))"
  using assms
  by (simp add: errors_def compute_distances_def Let_def spherical_distance_def project_def
      to_altaz_deg_def broadcast2_same_length zip_map_map case_prod_beta)

theorem errors_index_wise_witness:
  "length (rows True (stars (sensor_data c3))) = length (rows True (catalogue c3))
   \<and> errors az_gap on_grid c3 flat True = Inr [1 / 5, 4 / 5]"
proof -
  have h: "length (rows True (stars (sensor_data c3))) = length (rows True (catalogue c3))"
    by (simp add: rows_def valid_rows_def c3_def sd3_def dots3_def star_cat_def)
  show ?thesis
    using h errors_index_wise [OF h, of az_gap on_grid flat]
    by (simp add: rows_def valid_rows_def c3_def sd3_def dots3_def star_cat_def flat_def
        az_gap_def on_grid_def radians_def)
qed

text \<open>
  C5: the claim asks for an azimuth difference wrapped modulo \<open>2 * pi\<close>. For one dot
  at azimuth \<open>0\<close> and its star at azimuth 270 degrees, \<open>compute_vector_errors\<close>
  returns the azimuth component \<open>- (3 * pi / 2)\<close>, which lies below \<open>- pi\<close> and below
  \<open>0\<close>: it is not the wrapped value \<open>pi / 2\<close>. With the two azimuths exchanged the
  component is \<open>3 * pi / 2\<close>, above \<open>pi\<close>. Either way the two directions, a quarter
  turn apart, are reported three quarters of a turn apart.
\<close>

theorem vector_errors_azimuth_not_wrapped:
  "fst (compute_vector_errors [(0, 0)] [(0, 270)]) = Inr [(pi / 2, - (3 * pi / 2))]
   \<and> - (3 * pi / 2) < - pi \<and> - (3 * pi / 2) \<noteq> pi / 2
   \<and> fst (compute_vector_errors [(0, 3 * pi / 2)] [(0, 0)]) = Inr [(pi / 2, 3 * pi / 2)]
   \<and> pi < 3 * pi / 2"
  by (simp add: compute_vector_errors_def spherical_difference_def broadcast2_def
      point_difference_def radians_def Let_def)

lemma compute_distances_arrays_after:
  "fst (snd (compute_distances gc observed cat)) = map (\<lambda>(alt, az). (pi / 2 - alt, az)) observed"
  "snd (snd (compute_distances gc observed cat)) = cat"
  by (simp_all add: compute_distances_def Let_def)

lemma compute_vector_errors_arrays_after:
  "fst (snd (compute_vector_errors observed cat)) = map (\<lambda>(alt, az). (pi / 2 - alt, az)) observed"
  "snd (snd (compute_vector_errors observed cat)) = cat"
  by (simp_all add: compute_vector_errors_def Let_def)

text \<open>
  C6: the claim asks that both argument arrays are left unchanged. Both functions leave
  the caller's \<open>catalogue\<close> array as it was, and both overwrite the first column of
  the caller's \<open>observed\<close> array: called on one row \<open>(0, 0)\<close>, the array holds
  \<open>(pi / 2, 0)\<close> afterwards.
\<close>

theorem compute_overwrites_observed:
  "compute_distances gc [(0, 0)] [(0, 0)] = (Inr [gc (pi / 2, 0) (0, 0)], [(pi / 2, 0)], [(0, 0)])
   \<and> compute_vector_errors [(0, 0)] [(0, 0)] = (Inr [(pi / 2, 0)], [(pi / 2, 0)], [(0, 0)])
   \<and> [(pi / 2, 0 :: real)] \<noteq> [(0, 0)]"
  by (simp add: compute_distances_def compute_vector_errors_def spherical_distance_def
      spherical_difference_def broadcast2_def point_difference_def radians_def Let_def)

section \<open>Parameters at the boundary and the optimizer\<close>

text \<open>
  \<open>getConstantsTuple\<close> builds twelve components, the angular parameters at positions
  2, 4, 10 and 11 converted with \<open>radians\<close>; \<open>minimize\<close> writes a result of twelve
  components back, the same four positions through \<open>degrees\<close>. Whether a spin box
  then holds its old value again is a matter of the rounding of the two float64
  conversions and of the spin box, which this model of real numbers does not decide.
\<close>

lemma length_getConstantsTuple: "length (getConstantsTuple w) = 12"
  by (simp add: getConstantsTuple_def)

lemma minimize_writes_back:
  assumes "res_x (mm (getConstantsTuple w) (sb_maxiter w)) = [x0, y0, a0, A, F, V, S, D, P, Q, e, E]"
  shows "MainWindow_minimize mm w =
           Inr (w\<lparr>dsb_x0 := x0, dsb_y0 := y0, dsb_a0 := degrees a0, dsb_A := A,
                   dsb_F := degrees F, dsb_V := V, dsb_S := S, dsb_D := D, dsb_P := P,
                   dsb_Q := Q, dsb_eps := degrees e, dsb_E := degrees E\<rparr>)"
  using assms by (simp add: MainWindow_minimize_def Let_def)

lemma optimize_loop_length:
  assumes "\<forall>v. length v = n \<longrightarrow> length (propose v) = n"
  shows "length best = n \<Longrightarrow>
         length (res_x (optimize_loop err propose converged budget it best)) = n"
  using assms by (induction budget arbitrary: it best) (auto simp add: Let_def)

lemma optimize_loop_best:
  "err (res_x (optimize_loop err propose converged budget it best)) \<le> err best"
proof (induction budget arbitrary: it best)
  case 0
  then show ?case by simp
next
  case (Suc budget)
  show ?case
  proof (cases "converged best")
    case True
    then show ?thesis by simp
  next
    case False
    let ?b = "if err (propose best) < err best then propose best else best"
    have "err (res_x (optimize_loop err propose converged budget (Suc it) ?b)) \<le> err ?b"
      by (rule Suc.IH)
    also have "err ?b \<le> err best" by simp
    finally show ?thesis using False by (simp add: Let_def)
  qed
qed

lemma optimize_loop_nit:
  "it \<le> res_nit (optimize_loop err propose converged budget it best)
   \<and> res_nit (optimize_loop err propose converged budget it best) \<le> it + budget"
proof (induction budget arbitrary: it best)
  case 0
  then show ?case by simp
next
  case (Suc budget)
  let ?b = "if err (propose best) < err best then propose best else best"
  from Suc.IH [of "Suc it" ?b] show ?case
    by (auto simp add: Let_def)
qed

lemma optimize_loop_success:
  "res_success (optimize_loop err propose converged budget it best)
     = converged (res_x (optimize_loop err propose converged budget it best))"
  by (induction budget arbitrary: it best) (auto simp add: Let_def)

lemma optimize_loop_exhausted:
  "\<not> res_success (optimize_loop err propose converged budget it best) \<Longrightarrow>
   res_nit (optimize_loop err propose converged budget it best) = it + budget"
  by (induction budget arbitrary: it best) (auto simp add: Let_def split: if_splits)

text \<open>
  C8: for every start vector of twelve parameters and every iteration count, the
  optimizer returns a result and raises nothing: the result's vector has twelve
  components and an error no larger than the start vector's, its iteration count stays
  within the budget, and its flag tells whether the vector is converged; a result that is
  not converged has used the whole budget. \<open>MainWindow.minimize\<close> can therefore always
  unpack \<open>result.x\<close> into its twelve names. The search step is assumed to stay in
  the space of twelve parameters.
\<close>

theorem minimize_returns_best_found:
  assumes "length x0 = 12" and "\<forall>v. length v = 12 \<longrightarrow> length (propose v) = 12"
  shows "length (res_x (matcher_minimize err propose converged x0 maxiter)) = 12
       \<and> err (res_x (matcher_minimize err propose converged x0 maxiter)) \<le> err x0
       \<and> res_nit (matcher_minimize err propose converged x0 maxiter) \<le> nat maxiter
       \<and> res_success (matcher_minimize err propose converged x0 maxiter)
           = converged (res_x (matcher_minimize err propose converged x0 maxiter))
       \<and> (\<not> res_success (matcher_minimize err propose converged x0 maxiter) \<longrightarrow>
            res_nit (matcher_minimize err propose converged x0 maxiter) = nat maxiter)
       \<and> (\<exists>w'. MainWindow_minimize (matcher_minimize err propose converged) w = Inr w')"
proof -
  have len: "length (res_x (matcher_minimize err propose converged v maxiter)) = 12"
    if "length v = 12" for v maxiter
    using that assms(2) unfolding matcher_minimize_def
    by (intro optimize_loop_length [where n = 12]) auto
  have nit: "res_nit (matcher_minimize err propose converged x0 maxiter) \<le> nat maxiter"
    using optimize_loop_nit [of 0 err propose converged "nat maxiter" x0]
    by (simp add: matcher_minimize_def)
  have ex: "\<not> res_success (matcher_minimize err propose converged x0 maxiter) \<longrightarrow>
            res_nit (matcher_minimize err propose converged x0 maxiter) = nat maxiter"
    using optimize_loop_exhausted [of err propose converged "nat maxiter" 0 x0]
    by (simp add: matcher_minimize_def)
  have mw: "\<exists>w'. MainWindow_minimize (matcher_minimize err propose converged) w = Inr w'"
    using len [OF length_getConstantsTuple, of w "sb_maxiter w"]
    by (simp add: MainWindow_minimize_def Let_def)
  show ?thesis
    using len [OF assms(1)] nit ex mw
    by (simp add: optimize_loop_best optimize_loop_success matcher_minimize_def)
qed

theorem minimize_returns_best_found_witness:
  "length ones = 12
   \<and> matcher_minimize abs_sum shrink never ones 2
       = \<lparr>res_x = [1, 1, 1, 1, 1, 1, 1, 1, 1, 1, 1, 1], res_nit = 2, res_success = False\<rparr>
   \<and> abs_sum (res_x (matcher_minimize abs_sum shrink never ones 2)) \<le> abs_sum ones"
proof -
  have h1: "length ones = 12"
    by (simp add: ones_def)
  have h2: "\<forall>v. length v = 12 \<longrightarrow> length (shrink v) = 12"
    by (simp add: shrink_def)
  have r: "matcher_minimize abs_sum shrink never ones 2
       = \<lparr>res_x = [1, 1, 1, 1, 1, 1, 1, 1, 1, 1, 1, 1], res_nit = 2, res_success = False\<rparr>"
    by (simp add: matcher_minimize_def numeral_2_eq_2 never_def shrink_def abs_sum_def
        ones_def Let_def)
  show ?thesis
    using h1 r minimize_returns_best_found [OF h1 h2, of abs_sum never 2 w0]
    by simp
qed

end
